theory Spec2Isabelle
  imports Main "HOL-Library.Product_Lexorder"
begin

section \<open>Python values and their textual forms\<close>

text \<open>
  The agent of \<^verbatim>\<open>src/startup/agent.py\<close> stores, per section, what
  \<^verbatim>\<open>_analyze_with_gemini\<close> returns: a Python dictionary of strings. The
  dataclass annotates the sections as \<^verbatim>\<open>Dict[str, Any]\<close>, so the model uses the
  JSON-compatible Python values: \<^verbatim>\<open>None\<close>, booleans, unbounded integers, strings,
  lists and insertion-ordered dictionaries with string keys (floats are left out).
  A \<^typ>\<open>char\<close> stands for a code point below 256.
\<close>

datatype pyval =
    PNone
  | PBool bool
  | PInt int
  | PStr string
  | PList "pyval list"
  | PDict "(string \<times> pyval) list"

abbreviation nl :: char where "nl \<equiv> CHR 0x0A"
abbreviation dquote :: char where "dquote \<equiv> CHR 0x22"
abbreviation squote :: char where "squote \<equiv> CHR 0x27"
abbreviation bslash :: char where "bslash \<equiv> CHR 0x5C"

subsection \<open>Decimal and hexadecimal digits\<close>

definition digit_char :: "nat \<Rightarrow> char" where
  "digit_char d = char_of (48 + d)"

fun show_nat :: "nat \<Rightarrow> string" where
  "show_nat n = (if n < 10 then [digit_char n] else show_nat (n div 10) @ [digit_char (n mod 10)])"

declare show_nat.simps [simp del]

definition show_int :: "int \<Rightarrow> string" where
  "show_int i = (if i < 0 then CHR ''-'' # show_nat (nat (- i)) else show_nat (nat i))"

definition hex_char :: "nat \<Rightarrow> char" where
  "hex_char d = (if d < 10 then char_of (48 + d) else char_of (87 + d))"

text \<open>\<^verbatim>\<open>'%0wd' % n\<close>: decimal, padded with zeros on the left to width \<open>w\<close>.\<close>

definition zero_pad :: "nat \<Rightarrow> nat \<Rightarrow> string" where
  "zero_pad w n = replicate (w - length (show_nat n)) CHR ''0'' @ show_nat n"

subsection \<open>\<^verbatim>\<open>json.dumps(obj, indent=2)\<close>\<close>

text \<open>
  The string encoder of \<^verbatim>\<open>json.encoder\<close> with \<^verbatim>\<open>ensure_ascii=True\<close> (the
  default): the backslash and the double quote are escaped, the control characters
  with a short name use it, and every other character outside \<^verbatim>\<open>' '..'~'\<close>
  becomes \<^verbatim>\<open>\u00xx\<close>.
\<close>

definition json_escape_char :: "char \<Rightarrow> string" where
  "json_escape_char c =
     (if c = bslash then [bslash, bslash]
      else if c = dquote then [bslash, dquote]
      else if c = CHR 0x08 then [bslash, CHR ''b'']
      else if c = CHR 0x0C then [bslash, CHR ''f'']
      else if c = nl then [bslash, CHR ''n'']
      else if c = CHR 0x0D then [bslash, CHR ''r'']
      else if c = CHR 0x09 then [bslash, CHR ''t'']
      else if of_char c < (32::nat) \<or> (126::nat) < of_char c
        then [bslash, CHR ''u'', CHR ''0'', CHR ''0'',
              hex_char (of_char c div 16), hex_char (of_char c mod 16)]
      else [c])"

definition json_string :: "string \<Rightarrow> string" where
  "json_string s = dquote # concat (map json_escape_char s) @ [dquote]"

definition indent_str :: "nat \<Rightarrow> string" where
  "indent_str level = replicate (2 * level) CHR '' ''"

text \<open>
  \<^verbatim>\<open>_iterencode\<close>, \<^verbatim>\<open>_iterencode_list\<close> and \<^verbatim>\<open>_iterencode_dict\<close> with
  \<^verbatim>\<open>indent=2\<close> and the separators \<^verbatim>\<open>(',', ': ')\<close>. The \<open>level\<close> is
  \<^verbatim>\<open>_current_indent_level\<close> of the enclosing container. The two item functions
  emit the items of a non-empty container, each preceded by the newline, the
  indentation and (except the first) the comma.
\<close>

fun dumps_at :: "nat \<Rightarrow> pyval \<Rightarrow> string"
  and dumps_items :: "nat \<Rightarrow> bool \<Rightarrow> pyval list \<Rightarrow> string"
  and dumps_pairs :: "nat \<Rightarrow> bool \<Rightarrow> (string \<times> pyval) list \<Rightarrow> string"
where
  "dumps_at level PNone = ''null''"
| "dumps_at level (PBool b) = (if b then ''true'' else ''false'')"
| "dumps_at level (PInt i) = show_int i"
| "dumps_at level (PStr s) = json_string s"
| "dumps_at level (PList []) = ''[]''"
| "dumps_at level (PList (v # vs)) =
     ''['' @ dumps_items (Suc level) True (v # vs) @ [nl] @ indent_str level @ '']''"
| "dumps_at level (PDict []) = ''{}''"
| "dumps_at level (PDict (kv # kvs)) =
     ''{'' @ dumps_pairs (Suc level) True (kv # kvs) @ [nl] @ indent_str level @ ''}''"
| "dumps_items level first [] = []"
| "dumps_items level first (v # vs) =
     (if first then [] else '','') @ [nl] @ indent_str level @ dumps_at level v
       @ dumps_items level False vs"
| "dumps_pairs level first [] = []"
| "dumps_pairs level first ((k, v) # kvs) =
     (if first then [] else '','') @ [nl] @ indent_str level @ json_string k @ '': ''
       @ dumps_at level v @ dumps_pairs level False kvs"

definition json_dumps :: "pyval \<Rightarrow> string" where
  "json_dumps v = dumps_at 0 v"

subsection \<open>\<^verbatim>\<open>str\<close> and \<^verbatim>\<open>repr\<close>\<close>

text \<open>
  \<^verbatim>\<open>repr\<close> of a string: single quotes, unless the string holds a single quote and
  no double quote; the quote and the backslash are escaped, tab, newline and carriage
  return by name, the other non-printable characters as \<^verbatim>\<open>\xhh\<close>. Below 256 the
  non-printable code points are the controls, \<^verbatim>\<open>0x7f..0xa0\<close> and \<^verbatim>\<open>0xad\<close>.
\<close>

definition repr_quote :: "string \<Rightarrow> char" where
  "repr_quote s = (if squote \<in> set s \<and> dquote \<notin> set s then dquote else squote)"

definition repr_char :: "char \<Rightarrow> char \<Rightarrow> string" where
  "repr_char q c =
     (if c = q \<or> c = bslash then [bslash, c]
      else if c = CHR 0x09 then [bslash, CHR ''t'']
      else if c = nl then [bslash, CHR ''n'']
      else if c = CHR 0x0D then [bslash, CHR ''r'']
      else if of_char c < (32::nat) \<or> ((127::nat) \<le> of_char c \<and> of_char c \<le> (160::nat))
              \<or> of_char c = (173::nat)
        then [bslash, CHR ''x'', hex_char (of_char c div 16), hex_char (of_char c mod 16)]
      else [c])"

definition repr_str :: "string \<Rightarrow> string" where
  "repr_str s = repr_quote s # concat (map (repr_char (repr_quote s)) s) @ [repr_quote s]"

fun join :: "string \<Rightarrow> string list \<Rightarrow> string" where
  "join sep [] = []"
| "join sep [x] = x"
| "join sep (x # y # ys) = x @ sep @ join sep (y # ys)"

fun py_repr :: "pyval \<Rightarrow> string" where
  "py_repr PNone = ''None''"
| "py_repr (PBool b) = (if b then ''True'' else ''False'')"
| "py_repr (PInt i) = show_int i"
| "py_repr (PStr s) = repr_str s"
| "py_repr (PList vs) = ''['' @ join '', '' (map py_repr vs) @ '']''"
| "py_repr (PDict kvs) =
     ''{'' @ join '', '' (map (\<lambda>kv. repr_str (fst kv) @ '': '' @ py_repr (snd kv)) kvs) @ ''}''"

text \<open>\<^verbatim>\<open>str(x)\<close> and \<^verbatim>\<open>f"{x}"\<close>: a string is itself, anything else its \<^verbatim>\<open>repr\<close>.\<close>

fun py_str :: "pyval \<Rightarrow> string" where
  "py_str (PStr s) = s"
| "py_str v = py_repr v"

text \<open>
  \<^verbatim>\<open>str.lower()\<close> below code point 256: the ASCII capitals and the Latin-1
  capitals \<^verbatim>\<open>0xc0..0xde\<close> (without the multiplication sign \<^verbatim>\<open>0xd7\<close>) move
  up by 32.
\<close>

definition lower_char :: "char \<Rightarrow> char" where
  "lower_char c =
     (if ((65::nat) \<le> of_char c \<and> of_char c \<le> (90::nat))
         \<or> ((192::nat) \<le> of_char c \<and> of_char c \<le> (222::nat) \<and> of_char c \<noteq> (215::nat))
      then char_of (of_char c + (32::nat)) else c)"

definition lower :: "string \<Rightarrow> string" where
  "lower s = map lower_char s"

subsection \<open>Naive \<^verbatim>\<open>datetime\<close> values\<close>

record datetime =
  year :: nat
  month :: nat
  day :: nat
  hour :: nat
  minute :: nat
  second :: nat
  microsecond :: nat

text \<open>Naive datetimes compare field by field, the year first.\<close>

definition dt_key :: "datetime \<Rightarrow> nat \<times> nat \<times> nat \<times> nat \<times> nat \<times> nat \<times> nat" where
  "dt_key d = (year d, month d, day d, hour d, minute d, second d, microsecond d)"

definition dt_le :: "datetime \<Rightarrow> datetime \<Rightarrow> bool" where
  "dt_le a b = (dt_key a \<le> dt_key b)"

text \<open>\<^verbatim>\<open>datetime.isoformat(sep)\<close>; \<^verbatim>\<open>str(d)\<close> is \<^verbatim>\<open>d.isoformat(' ')\<close>.\<close>

definition dt_isoformat_sep :: "char \<Rightarrow> datetime \<Rightarrow> string" where
  "dt_isoformat_sep sep d =
     zero_pad 4 (year d) @ ''-'' @ zero_pad 2 (month d) @ ''-'' @ zero_pad 2 (day d)
     @ [sep] @ zero_pad 2 (hour d) @ '':'' @ zero_pad 2 (minute d) @ '':'' @ zero_pad 2 (second d)
     @ (if microsecond d = 0 then [] else ''.'' @ zero_pad 6 (microsecond d))"

definition dt_isoformat :: "datetime \<Rightarrow> string" where
  "dt_isoformat d = dt_isoformat_sep CHR ''T'' d"

definition dt_str :: "datetime \<Rightarrow> string" where
  "dt_str d = dt_isoformat_sep CHR '' '' d"

section \<open>The agent\<close>

datatype py_error = KeyError string | ValueError string

text \<open>The dataclass \<^verbatim>\<open>StartupAnalysis\<close>.\<close>

record analysis =
  market_research :: pyval
  customer_analysis :: pyval
  business_model :: pyval
  technical_feasibility :: pyval
  financial_projections :: pyval
  go_to_market :: pyval
  risk_assessment :: pyval
  recommendations :: "pyval list"
  created_at :: datetime

text \<open>\<^verbatim>\<open>StartupAIAgent\<close>: the state of an instance is its history.\<close>

record agent =
  analysis_history :: "analysis list"

definition init_agent :: agent where
  "init_agent = \<lparr>analysis_history = []\<rparr>"

text \<open>
  The world outside the agent: the text-generation service and the wall clock.
  A call \<^verbatim>\<open>gemini_model.generate_content(prompt)\<close> followed by \<^verbatim>\<open>response.text\<close>
  either yields the text (\<open>Inr\<close>) or raises an exception, of which the program only
  uses \<^verbatim>\<open>str(e)\<close> (\<open>Inl\<close>); the service may change its own state at each call.
  \<^verbatim>\<open>datetime.now()\<close> reads the clock: its successive readings are \<open>clock w 0\<close>,
  \<open>clock w 1\<close>, ...
\<close>

type_synonym 's service = "'s \<Rightarrow> string \<Rightarrow> (string + string) \<times> 's"

record 's world =
  svc_state :: 's
  clock :: "nat \<Rightarrow> datetime"
  ticks :: nat

definition generate_content :: "'s service \<Rightarrow> 's world \<Rightarrow> string \<Rightarrow> (string + string) \<times> 's world" where
  "generate_content svc w prompt =
     (case svc (svc_state w) prompt of (r, s') \<Rightarrow> (r, w\<lparr>svc_state := s'\<rparr>))"

definition datetime_now :: "'s world \<Rightarrow> datetime \<times> 's world" where
  "datetime_now w = (clock w (ticks w), w\<lparr>ticks := Suc (ticks w)\<rparr>)"

definition tasks :: "(string \<times> string) list" where
  "tasks =
    [(''market_research'', ''Analyze market size, trends, and competitive landscape''),
     (''customer_analysis'', ''Define target customers and their pain points''),
     (''business_model'', ''Design comprehensive business model and revenue streams''),
     (''technical_feasibility'', ''Evaluate technical requirements and feasibility''),
     (''financial_projections'', ''Create financial projections and funding requirements''),
     (''go_to_market'', ''Develop go-to-market strategy and launch plan''),
     (''risk_assessment'', ''Identify potential risks and mitigation strategies''),
     (''recommendations'', ''Provide actionable recommendations and next steps'')]"

definition gemini_prompt :: "string \<Rightarrow> string \<Rightarrow> string" where
  "gemini_prompt task startup_idea =
     [nl] @ replicate 12 CHR '' ''
     @ ''As an expert startup analyst, provide detailed analysis for: '' @ task @ [nl]
     @ replicate 12 CHR '' '' @ [nl]
     @ replicate 12 CHR '' '' @ ''Startup Idea: '' @ startup_idea @ [nl]
     @ replicate 12 CHR '' '' @ [nl]
     @ replicate 12 CHR '' ''
     @ ''Please provide your analysis in a structured format with clear sections and actionable insights.''
     @ [nl] @ replicate 12 CHR '' ''"

text \<open>\<^verbatim>\<open>_analyze_with_gemini\<close>: the \<^verbatim>\<open>except Exception\<close> branch returns the error mapping.\<close>

definition analyze_with_gemini :: "'s service \<Rightarrow> 's world \<Rightarrow> string \<Rightarrow> string \<Rightarrow> pyval \<times> 's world" where
  "analyze_with_gemini svc w startup_idea task =
     (case generate_content svc w (gemini_prompt task startup_idea) of
        (Inr text, w') \<Rightarrow> (PDict [(''analysis'', PStr text), (''source'', PStr ''Gemini'')], w')
      | (Inl e, w') \<Rightarrow> (PDict [(''error'', PStr e), (''source'', PStr ''Gemini'')], w'))"

text \<open>The loop over \<^verbatim>\<open>tasks\<close>, filling the dictionary \<^verbatim>\<open>results\<close>.\<close>

fun run_tasks :: "'s service \<Rightarrow> string \<Rightarrow> (string \<times> string) list \<Rightarrow> (string \<rightharpoonup> pyval) \<Rightarrow> 's world
    \<Rightarrow> (string \<rightharpoonup> pyval) \<times> 's world" where
  "run_tasks svc startup_idea [] results w = (results, w)"
| "run_tasks svc startup_idea ((task_name, task_description) # ts) results w =
     (case analyze_with_gemini svc w startup_idea task_description of
        (gemini_result, w') \<Rightarrow> run_tasks svc startup_idea ts (results(task_name \<mapsto> gemini_result)) w')"

definition getitem :: "(string \<rightharpoonup> pyval) \<Rightarrow> string \<Rightarrow> py_error + pyval" where
  "getitem d k = (case d k of None \<Rightarrow> Inl (KeyError k) | Some v \<Rightarrow> Inr v)"

definition bind_err :: "'e + 'a \<Rightarrow> ('a \<Rightarrow> 'e + 'b) \<Rightarrow> 'e + 'b" where
  "bind_err m f = (case m of Inl e \<Rightarrow> Inl e | Inr a \<Rightarrow> f a)"

text \<open>
  The last argument of the constructor:
  \<^verbatim>\<open>r if isinstance(r, list) else [str(r)]\<close>.
\<close>

definition coerce_recommendations :: "pyval \<Rightarrow> pyval list" where
  "coerce_recommendations r = (case r of PList xs \<Rightarrow> xs | _ \<Rightarrow> [PStr (py_str r)])"

text \<open>
  The call of the constructor: the eight subscripts of \<^verbatim>\<open>results\<close> are evaluated in
  order (a missing key raises \<^verbatim>\<open>KeyError\<close>), then \<^verbatim>\<open>default_factory\<close> reads the
  clock for \<^verbatim>\<open>created_at\<close>.
\<close>

definition build_analysis :: "(string \<rightharpoonup> pyval) \<Rightarrow> 's world \<Rightarrow> (py_error + analysis) \<times> 's world" where
  "build_analysis results w =
     (case
        bind_err (getitem results ''market_research'') (\<lambda>mr.
        bind_err (getitem results ''customer_analysis'') (\<lambda>ca.
        bind_err (getitem results ''business_model'') (\<lambda>bm.
        bind_err (getitem results ''technical_feasibility'') (\<lambda>tf.
        bind_err (getitem results ''financial_projections'') (\<lambda>fp.
        bind_err (getitem results ''go_to_market'') (\<lambda>gtm.
        bind_err (getitem results ''risk_assessment'') (\<lambda>ra.
        bind_err (getitem results ''recommendations'') (\<lambda>rc.
          Inr (mr, ca, bm, tf, fp, gtm, ra, coerce_recommendations rc)))))))))
      of
        Inl e \<Rightarrow> (Inl e, w)
      | Inr (mr, ca, bm, tf, fp, gtm, ra, recs) \<Rightarrow>
          (case datetime_now w of (t, w') \<Rightarrow>
            (Inr \<lparr>market_research = mr, customer_analysis = ca, business_model = bm,
                  technical_feasibility = tf, financial_projections = fp, go_to_market = gtm,
                  risk_assessment = ra, recommendations = recs, created_at = t\<rparr>, w')))"

text \<open>\<^verbatim>\<open>analyze_startup_idea\<close>: an exception leaves the history as it was.\<close>

definition analyze_startup_idea :: "'s service \<Rightarrow> agent \<Rightarrow> 's world \<Rightarrow> string
    \<Rightarrow> (py_error + analysis) \<times> agent \<times> 's world" where
  "analyze_startup_idea svc self w startup_idea =
     (case run_tasks svc startup_idea tasks Map.empty w of (results, w1) \<Rightarrow>
        (case build_analysis results w1 of
           (Inl e, w2) \<Rightarrow> (Inl e, self, w2)
         | (Inr a, w2) \<Rightarrow>
             (Inr a, self\<lparr>analysis_history := analysis_history self @ [a]\<rparr>, w2)))"

text \<open>\<^verbatim>\<open>analysis.__dict__\<close> as \<^verbatim>\<open>json.dumps(..., default=str)\<close> sees it: the datetime,
  not serialisable, goes through \<^verbatim>\<open>str\<close>.\<close>

definition analysis_dict :: "analysis \<Rightarrow> pyval" where
  "analysis_dict a = PDict
     [(''market_research'', market_research a),
      (''customer_analysis'', customer_analysis a),
      (''business_model'', business_model a),
      (''technical_feasibility'', technical_feasibility a),
      (''financial_projections'', financial_projections a),
      (''go_to_market'', go_to_market a),
      (''risk_assessment'', risk_assessment a),
      (''recommendations'', PList (recommendations a)),
      (''created_at'', PStr (dt_str (created_at a)))]"

definition pitch_prompt :: "analysis \<Rightarrow> string" where
  "pitch_prompt a =
     [nl] @ replicate 8 CHR '' ''
     @ ''Based on the following startup analysis, create a compelling pitch deck structure:'' @ [nl]
     @ replicate 8 CHR '' '' @ [nl]
     @ replicate 8 CHR '' '' @ json_dumps (analysis_dict a) @ [nl]
     @ replicate 8 CHR '' '' @ [nl]
     @ replicate 8 CHR '' '' @ ''Include:'' @ [nl]
     @ replicate 8 CHR '' '' @ ''1. Problem Statement'' @ [nl]
     @ replicate 8 CHR '' '' @ ''2. Solution Overview'' @ [nl]
     @ replicate 8 CHR '' '' @ ''3. Market Opportunity'' @ [nl]
     @ replicate 8 CHR '' '' @ ''4. Business Model'' @ [nl]
     @ replicate 8 CHR '' '' @ ''5. Competitive Advantage'' @ [nl]
     @ replicate 8 CHR '' '' @ ''6. Financial Projections'' @ [nl]
     @ replicate 8 CHR '' '' @ ''7. Go-to-Market Strategy'' @ [nl]
     @ replicate 8 CHR '' '' @ ''8. Team & Execution Plan'' @ [nl]
     @ replicate 8 CHR '' '' @ ''9. Funding Requirements'' @ [nl]
     @ replicate 8 CHR '' '' @ ''10. Call to Action'' @ [nl]
     @ replicate 8 CHR '' ''"

definition generate_pitch_deck :: "'s service \<Rightarrow> agent \<Rightarrow> 's world \<Rightarrow> analysis
    \<Rightarrow> pyval \<times> agent \<times> 's world" where
  "generate_pitch_deck svc self w a =
     (case generate_content svc w (pitch_prompt a) of
        (Inr text, w1) \<Rightarrow>
          (case datetime_now w1 of (t, w2) \<Rightarrow>
             (PDict [(''pitch_deck'', PStr text), (''generated_at'', PStr (dt_isoformat t))], self, w2))
      | (Inl e, w1) \<Rightarrow> (PDict [(''error'', PStr e)], self, w1))"

definition validation_prompt :: "pyval \<Rightarrow> string" where
  "validation_prompt bm =
     [nl] @ replicate 8 CHR '' ''
     @ ''Validate and improve this business model:'' @ [nl]
     @ replicate 8 CHR '' '' @ [nl]
     @ replicate 8 CHR '' '' @ json_dumps bm @ [nl]
     @ replicate 8 CHR '' '' @ [nl]
     @ replicate 8 CHR '' '' @ ''Provide:'' @ [nl]
     @ replicate 8 CHR '' '' @ ''1. Strengths and weaknesses'' @ [nl]
     @ replicate 8 CHR '' '' @ ''2. Potential improvements'' @ [nl]
     @ replicate 8 CHR '' '' @ ''3. Risk factors'' @ [nl]
     @ replicate 8 CHR '' '' @ ''4. Scalability assessment'' @ [nl]
     @ replicate 8 CHR '' '' @ ''5. Revenue optimization suggestions'' @ [nl]
     @ replicate 8 CHR '' ''"

definition validate_business_model :: "'s service \<Rightarrow> agent \<Rightarrow> 's world \<Rightarrow> pyval
    \<Rightarrow> pyval \<times> agent \<times> 's world" where
  "validate_business_model svc self w bm =
     (case generate_content svc w (validation_prompt bm) of
        (Inr text, w1) \<Rightarrow>
          (case datetime_now w1 of (t, w2) \<Rightarrow>
             (PDict [(''validation'', PStr text), (''validated_at'', PStr (dt_isoformat t))], self, w2))
      | (Inl e, w1) \<Rightarrow> (PDict [(''error'', PStr e)], self, w1))"

definition get_analysis_history :: "agent \<Rightarrow> analysis list" where
  "get_analysis_history self = analysis_history self"

text \<open>\<^verbatim>\<open>_convert_to_markdown\<close>: the template, line by line.\<close>

definition bullet :: "pyval \<Rightarrow> string" where
  "bullet rec = ''- '' @ py_str rec"

definition md_section :: "string \<Rightarrow> pyval \<Rightarrow> string" where
  "md_section title v = ''## '' @ title @ [nl] @ json_dumps v @ [nl] @ [nl]"

definition convert_to_markdown :: "analysis \<Rightarrow> string" where
  "convert_to_markdown a =
     ''# Startup Analysis Report'' @ [nl]
     @ ''Generated on: '' @ dt_str (created_at a) @ [nl]
     @ [nl]
     @ md_section ''Market Research'' (market_research a)
     @ md_section ''Customer Analysis'' (customer_analysis a)
     @ md_section ''Business Model'' (business_model a)
     @ md_section ''Technical Feasibility'' (technical_feasibility a)
     @ md_section ''Financial Projections'' (financial_projections a)
     @ md_section ''Go-to-Market Strategy'' (go_to_market a)
     @ md_section ''Risk Assessment'' (risk_assessment a)
     @ ''## Recommendations'' @ [nl]
     @ join [nl] (map bullet (recommendations a)) @ [nl]"

definition export_analysis :: "analysis \<Rightarrow> string \<Rightarrow> py_error + string" where
  "export_analysis a format =
     (if lower format = ''json'' then Inr (json_dumps (analysis_dict a))
      else if lower format = ''markdown'' then Inr (convert_to_markdown a)
      else Inl (ValueError (''Unsupported format: '' @ format)))"

text \<open>The route \<^verbatim>\<open>DELETE /analyses/{analysis_id}\<close> of \<^verbatim>\<open>api.py\<close>.\<close>

datatype http_exception = HTTPException nat string

definition delete_analysis :: "agent \<Rightarrow> int \<Rightarrow> (http_exception + pyval) \<times> agent" where
  "delete_analysis self analysis_id =
     (Inl (HTTPException 501 ''Delete functionality not implemented yet''), self)"

section \<open>\<^verbatim>\<open>json.loads\<close>\<close>








definition cons_result :: "char \<Rightarrow> (string \<times> string) option \<Rightarrow> (string \<times> string) option" where
  "cons_result c r = (case r of None \<Rightarrow> None | Some (s, rest) \<Rightarrow> Some (c # s, rest))"










definition delimited :: "string \<Rightarrow> bool" where
  "delimited rest = (case rest of [] \<Rightarrow> True | c # _ \<Rightarrow> c = CHR '','' \<or> c = nl)"


section \<open>Sessions of calls\<close>

text \<open>
  The public operations of the agent and the delete route, as requests performed one
  after the other on one agent and one world.
\<close>

datatype request =
    Analyze string
  | GeneratePitchDeck analysis
  | ValidateBusinessModel pyval
  | GetAnalysisHistory
  | ExportAnalysis analysis string
  | DeleteAnalysis int

datatype outcome =
    Analysed "py_error + analysis"
  | PitchDeck pyval
  | Validation pyval
  | History "analysis list"
  | Exported "py_error + string"
  | Deleted "http_exception + pyval"

fun perform :: "'s service \<Rightarrow> request \<Rightarrow> agent \<Rightarrow> 's world \<Rightarrow> outcome \<times> agent \<times> 's world" where
  "perform svc (Analyze idea) self w =
     (case analyze_startup_idea svc self w idea of (r, self', w') \<Rightarrow> (Analysed r, self', w'))"
| "perform svc (GeneratePitchDeck a) self w =
     (case generate_pitch_deck svc self w a of (r, self', w') \<Rightarrow> (PitchDeck r, self', w'))"
| "perform svc (ValidateBusinessModel bm) self w =
     (case validate_business_model svc self w bm of (r, self', w') \<Rightarrow> (Validation r, self', w'))"
| "perform svc GetAnalysisHistory self w = (History (get_analysis_history self), self, w)"
| "perform svc (ExportAnalysis a format) self w = (Exported (export_analysis a format), self, w)"
| "perform svc (DeleteAnalysis i) self w =
     (case delete_analysis self i of (r, self') \<Rightarrow> (Deleted r, self', w))"

fun perform_all :: "'s service \<Rightarrow> request list \<Rightarrow> agent \<Rightarrow> 's world
    \<Rightarrow> outcome list \<times> agent \<times> 's world" where
  "perform_all svc [] self w = ([], self, w)"
| "perform_all svc (r # rs) self w =
     (case perform svc r self w of (out, self1, w1) \<Rightarrow>
        (case perform_all svc rs self1 w1 of (outs, self2, w2) \<Rightarrow> (out # outs, self2, w2)))"

text \<open>The records returned by the \<^verbatim>\<open>analyze_startup_idea\<close> calls, in call order.\<close>

fun analysed :: "outcome list \<Rightarrow> analysis list" where
  "analysed [] = []"
| "analysed (Analysed (Inr a) # outs) = a # analysed outs"
| "analysed (out # outs) = analysed outs"

section \<open>Vocabulary of the properties\<close>

text \<open>The state of the service before its \<open>i\<close>-th call (from 0) within one analysis,
  and what it answers to that call.\<close>

fun state_before :: "'s service \<Rightarrow> 's \<Rightarrow> string \<Rightarrow> nat \<Rightarrow> 's" where
  "state_before svc s idea 0 = s"
| "state_before svc s idea (Suc i) =
     snd (svc (state_before svc s idea i) (gemini_prompt (snd (tasks ! i)) idea))"

definition reply :: "'s service \<Rightarrow> 's \<Rightarrow> string \<Rightarrow> nat \<Rightarrow> string + string" where
  "reply svc s idea i =
     fst (svc (state_before svc s idea i) (gemini_prompt (snd (tasks ! i)) idea))"

definition section_value :: "string + string \<Rightarrow> pyval" where
  "section_value r =
     (case r of Inr text \<Rightarrow> PDict [(''analysis'', PStr text), (''source'', PStr ''Gemini'')]
              | Inl e \<Rightarrow> PDict [(''error'', PStr e), (''source'', PStr ''Gemini'')])"

definition error_marker :: "string \<Rightarrow> pyval" where
  "error_marker e = PDict [(''error'', PStr e), (''source'', PStr ''Gemini'')]"

text \<open>The attributes of a record that hold the eight sections, by name.\<close>

definition section_attr :: "analysis \<Rightarrow> string \<rightharpoonup> pyval" where
  "section_attr a =
     [''market_research'' \<mapsto> market_research a,
      ''customer_analysis'' \<mapsto> customer_analysis a,
      ''business_model'' \<mapsto> business_model a,
      ''technical_feasibility'' \<mapsto> technical_feasibility a,
      ''financial_projections'' \<mapsto> financial_projections a,
      ''go_to_market'' \<mapsto> go_to_market a,
      ''risk_assessment'' \<mapsto> risk_assessment a,
      ''recommendations'' \<mapsto> PList (recommendations a)]"

definition section_names :: "string list" where
  "section_names =
     [''market_research'', ''customer_analysis'', ''business_model'', ''technical_feasibility'',
      ''financial_projections'', ''go_to_market'', ''risk_assessment'']"

text \<open>Services and a clock to run the program on.\<close>

definition failing_service :: "string \<Rightarrow> unit service" where
  "failing_service msg = (\<lambda>s prompt. (Inl msg, s))"

text \<open>The stub counts its calls and answers the \<open>n\<close>-th one with the name of the
  \<open>n\<close>-th section; it raises at the calls listed in \<open>bad\<close>.\<close>

definition stub_service :: "nat list \<Rightarrow> nat service" where
  "stub_service bad = (\<lambda>n prompt.
     (if n mod 8 \<in> set bad then Inl ''stub failure''
      else Inr (''STUB:'' @ fst (tasks ! (n mod 8)) @ '' analysis text''), Suc n))"

definition new_year :: "nat \<Rightarrow> datetime" where
  "new_year n = \<lparr>year = 2026 + n, month = 1, day = 1, hour = 0, minute = 0, second = 0,
     microsecond = 0\<rparr>"

text \<open>A clock that is set back after its first reading.\<close>

definition stepping_back :: "nat \<Rightarrow> datetime" where
  "stepping_back n = (if n = 0 then new_year 1 else new_year 0)"

definition world0 :: "'s \<Rightarrow> (nat \<Rightarrow> datetime) \<Rightarrow> 's world" where
  "world0 s c = \<lparr>svc_state = s, clock = c, ticks = 0\<rparr>"

definition sample_analysis :: "pyval list \<Rightarrow> analysis" where
  "sample_analysis recs =
     \<lparr>market_research = PDict [(''test'', PStr ''data'')],
      customer_analysis = PDict [],
      business_model = PDict [(''n'', PInt (- 5)), (''tags'', PList [PStr ''a'', PNone])],
      technical_feasibility = PDict [],
      financial_projections = PDict [],
      go_to_market = PDict [],
      risk_assessment = error_marker ''quota'',
      recommendations = recs,
      created_at = new_year 0\<rparr>"

text \<open>\<^verbatim>\<open>s.split('\n')\<close>, the lines of a text; a bullet line starts with \<^verbatim>\<open>"- "\<close>.\<close>

fun split_lines :: "string \<Rightarrow> string list" where
  "split_lines [] = ['''']"
| "split_lines (c # cs) =
     (if c = nl then [] # split_lines cs
      else (case split_lines cs of l # ls \<Rightarrow> (c # l) # ls | [] \<Rightarrow> [c] # []))"

definition is_bullet_line :: "string \<Rightarrow> bool" where
  "is_bullet_line l = (take 2 l = ''- '')"

definition bullet_lines :: "string \<Rightarrow> string list" where
  "bullet_lines s = filter is_bullet_line (split_lines s)"

definition section_headings :: "string list" where
  "section_headings =
     [''## Market Research'', ''## Customer Analysis'', ''## Business Model'',
      ''## Technical Feasibility'', ''## Financial Projections'',
      ''## Go-to-Market Strategy'', ''## Risk Assessment'']"

text \<open>A capitalization of a lower-case word: each letter as it is or as its capital.\<close>

definition capital_of :: "char \<Rightarrow> char \<Rightarrow> bool" where
  "capital_of c d =
     ((97::nat) \<le> of_char d \<and> of_char d \<le> (122::nat) \<and> of_char c + (32::nat) = of_char d)"

definition capitalization_of :: "string \<Rightarrow> string \<Rightarrow> bool" where
  "capitalization_of word s = list_all2 (\<lambda>c d. c = d \<or> capital_of c d) s word"

text \<open>What one analysis computes: the record, the history and the world after it.\<close>

definition analysis_of :: "'s service \<Rightarrow> 's world \<Rightarrow> string \<Rightarrow> analysis" where
  "analysis_of svc w idea =
     \<lparr>market_research = section_value (reply svc (svc_state w) idea 0),
      customer_analysis = section_value (reply svc (svc_state w) idea 1),
      business_model = section_value (reply svc (svc_state w) idea 2),
      technical_feasibility = section_value (reply svc (svc_state w) idea 3),
      financial_projections = section_value (reply svc (svc_state w) idea 4),
      go_to_market = section_value (reply svc (svc_state w) idea 5),
      risk_assessment = section_value (reply svc (svc_state w) idea 6),
      recommendations = coerce_recommendations (section_value (reply svc (svc_state w) idea 7)),
      created_at = clock w (ticks w)\<rparr>"

text \<open>The two shapes \<^verbatim>\<open>_analyze_with_gemini\<close> returns.\<close>

fun is_error_marker :: "pyval \<Rightarrow> bool" where
  "is_error_marker (PDict [(k1, PStr e), (k2, PStr s)]) =
     (k1 = ''error'' \<and> k2 = ''source'' \<and> s = ''Gemini'')"
| "is_error_marker v = False"

fun is_analysis_value :: "pyval \<Rightarrow> bool" where
  "is_analysis_value (PDict [(k1, PStr t), (k2, PStr s)]) =
     (k1 = ''analysis'' \<and> k2 = ''source'' \<and> s = ''Gemini'')"
| "is_analysis_value v = False"

text \<open>In the output of \<^verbatim>\<open>json.dumps\<close> every newline is followed by the indentation
  or by a closing bracket; \<open>nl_ok\<close> says so of a text.\<close>

fun nl_ok :: "string \<Rightarrow> bool" where
  "nl_ok [] = True"
| "nl_ok [c] = (c \<noteq> nl)"
| "nl_ok (c # d # r) = ((c \<noteq> nl \<or> d = CHR '' '' \<or> d = CHR ''}'' \<or> d = CHR '']'') \<and> nl_ok (d # r))"

text \<open>The lines one section contributes to the markdown document.\<close>

definition md_section_lines :: "string \<Rightarrow> pyval \<Rightarrow> string list" where
  "md_section_lines title v = (''## '' @ title) # split_lines (json_dumps v) @ ['''']"

section \<open>Properties\<close>

lemma analyze_with_gemini_eq:
  "analyze_with_gemini svc w idea d =
     (section_value (fst (svc (svc_state w) (gemini_prompt d idea))),
      w\<lparr>svc_state := snd (svc (svc_state w) (gemini_prompt d idea))\<rparr>)"
  by (simp add: analyze_with_gemini_def generate_content_def section_value_def
      split: prod.splits sum.splits)

lemma run_tasks_tasks:
  "run_tasks svc idea tasks Map.empty w =
     ([''market_research'' \<mapsto> section_value (reply svc (svc_state w) idea 0),
       ''customer_analysis'' \<mapsto> section_value (reply svc (svc_state w) idea 1),
       ''business_model'' \<mapsto> section_value (reply svc (svc_state w) idea 2),
       ''technical_feasibility'' \<mapsto> section_value (reply svc (svc_state w) idea 3),
       ''financial_projections'' \<mapsto> section_value (reply svc (svc_state w) idea 4),
       ''go_to_market'' \<mapsto> section_value (reply svc (svc_state w) idea 5),
       ''risk_assessment'' \<mapsto> section_value (reply svc (svc_state w) idea 6),
       ''recommendations'' \<mapsto> section_value (reply svc (svc_state w) idea 7)],
      w\<lparr>svc_state := state_before svc (svc_state w) idea 8\<rparr>)"
  by (simp add: tasks_def analyze_with_gemini_eq reply_def eval_nat_numeral)

lemma analyze_startup_idea_eq:
  "analyze_startup_idea svc self w idea =
     (Inr (analysis_of svc w idea),
      self\<lparr>analysis_history := analysis_history self @ [analysis_of svc w idea]\<rparr>,
      w\<lparr>svc_state := state_before svc (svc_state w) idea 8, ticks := Suc (ticks w)\<rparr>)"
  by (simp add: analyze_startup_idea_def run_tasks_tasks build_analysis_def getitem_def
      bind_err_def datetime_now_def analysis_of_def)

lemma section_value_Inl: "section_value (Inl e) = error_marker e"
  by (simp add: section_value_def error_marker_def)

lemma section_value_shape: "is_analysis_value (section_value r) \<or> is_error_marker (section_value r)"
  by (cases r) (simp_all add: section_value_def)

lemma section_value_isl: "isl r \<Longrightarrow> is_error_marker (section_value r)"
  by (cases r) (simp_all add: section_value_def)

lemma section_analysis_of:
  assumes "i < 7"
  shows "section_attr (analysis_of svc w idea) (fst (tasks ! i))
     = Some (section_value (reply svc (svc_state w) idea i))"
proof -
  from assms consider "i = 0" | "i = 1" | "i = 2" | "i = 3" | "i = 4" | "i = 5" | "i = 6"
    by linarith
  then show ?thesis
    by cases (simp_all add: section_attr_def analysis_of_def tasks_def)
qed

lemma reply_failing: "reply (failing_service m) s idea i = Inl m"
  by (simp add: reply_def failing_service_def)

lemma state_before_stub: "state_before (stub_service bad) n idea i = n + i"
  by (induction i) (simp_all add: stub_service_def)

lemma reply_stub:
  "reply (stub_service bad) n idea i =
     (if (n + i) mod 8 \<in> set bad then Inl ''stub failure''
      else Inr (''STUB:'' @ fst (tasks ! ((n + i) mod 8)) @ '' analysis text''))"
  unfolding reply_def state_before_stub by (simp add: stub_service_def)

subsection \<open>Failing sections\<close>

text \<open>
  C1 (as the code has it). Whatever the service does, \<^verbatim>\<open>analyze_startup_idea\<close> returns
  a record and appends it to the history, and the service has then been called eight
  times, once per task and in the order of the tasks: no failure stops the loop or
  leaves the function as an exception. When the call for one of the seven named
  sections raises with message \<open>e\<close>, that attribute of the record is the mapping
  \<^verbatim>\<open>{"error": e, "source": "Gemini"}\<close>. When the call for the recommendations raises,
  the attribute is not that mapping but the list holding its \<^verbatim>\<open>str\<close> form.
\<close>

theorem analyze_failed_sections:
  "\<exists>a w'. analyze_startup_idea svc self w idea
        = (Inr a, self\<lparr>analysis_history := analysis_history self @ [a]\<rparr>, w')
     \<and> svc_state w' = state_before svc (svc_state w) idea 8
     \<and> (\<forall>i e. i < 7 \<and> reply svc (svc_state w) idea i = Inl e
           \<longrightarrow> section_attr a (fst (tasks ! i)) = Some (error_marker e))
     \<and> (\<forall>e. reply svc (svc_state w) idea 7 = Inl e
           \<longrightarrow> recommendations a = [PStr (py_repr (error_marker e))])"
proof -
  let ?a = "analysis_of svc w idea"
  have 1: "\<forall>i e. i < 7 \<and> reply svc (svc_state w) idea i = Inl e
           \<longrightarrow> section_attr ?a (fst (tasks ! i)) = Some (error_marker e)"
    by (simp add: section_analysis_of section_value_Inl)
  have 2: "\<forall>e. reply svc (svc_state w) idea 7 = Inl e
           \<longrightarrow> recommendations ?a = [PStr (py_repr (error_marker e))]"
    by (simp add: analysis_of_def section_value_Inl coerce_recommendations_def error_marker_def)
  show ?thesis
    using 1 2 by (simp add: analyze_startup_idea_eq)
qed

text \<open>The stub raises at the call for the risk assessment (call 6) and at the one for
  the recommendations (call 7).\<close>

theorem analyze_failed_sections_witness:
  "\<not> isl (fst (analyze_startup_idea (stub_service [6, 7]) init_agent (world0 0 new_year) ''tea''))
   \<and> risk_assessment (projr (fst (analyze_startup_idea (stub_service [6, 7]) init_agent
        (world0 0 new_year) ''tea'')))
       = PDict [(''error'', PStr ''stub failure''), (''source'', PStr ''Gemini'')]
   \<and> recommendations (projr (fst (analyze_startup_idea (stub_service [6, 7]) init_agent
        (world0 0 new_year) ''tea'')))
       = [PStr (py_repr (error_marker ''stub failure''))]"
  using analyze_failed_sections [of "stub_service [6, 7]" init_agent "world0 0 new_year" "''tea''"]
  apply (simp add: reply_stub world0_def)
  apply (elim exE conjE)
  subgoal for a w'
    apply (drule spec [of _ 6])
    apply (simp add: tasks_def section_attr_def error_marker_def)
    done
  done

text \<open>The claim as stated fails for the eighth section: with a service that always
  raises \<^verbatim>\<open>boom\<close>, the recommendations are
  \<^verbatim>\<open>["{'error': 'boom', 'source': 'Gemini'}"]\<close>, a list of one string.\<close>

theorem recommendations_error_counterexample:
  "\<not> isl (fst (analyze_startup_idea (failing_service ''boom'') init_agent (world0 () new_year) ''tea''))
   \<and> reply (failing_service ''boom'') () ''tea'' 7 = Inl ''boom''
   \<and> section_attr (projr (fst (analyze_startup_idea (failing_service ''boom'') init_agent
        (world0 () new_year) ''tea''))) ''recommendations''
       = Some (PList [PStr (CHR ''{'' # squote # ''error'' @ squote # '': '' @ squote # ''boom''
            @ squote # '', '' @ squote # ''source'' @ squote # '': '' @ squote # ''Gemini''
            @ [squote, CHR ''}''])])
   \<and> section_attr (projr (fst (analyze_startup_idea (failing_service ''boom'') init_agent
        (world0 () new_year) ''tea''))) ''recommendations''
       \<noteq> Some (PDict [(''error'', PStr ''boom''), (''source'', PStr ''Gemini'')])"
  by (simp add: analyze_startup_idea_eq reply_failing analysis_of_def section_attr_def
      section_value_def coerce_recommendations_def repr_str_def repr_quote_def repr_char_def)

subsection \<open>The shape of the record\<close>

text \<open>
  C2. For every idea string (the empty one too) and every service,
  \<^verbatim>\<open>analyze_startup_idea\<close> returns a record, never an exception: each of the seven
  named sections is present and holds either an analysis mapping or an error marker,
  and the recommendations are a sequence of one element, so not empty. When the
  service fails at each of the eight calls, all seven sections are error markers and
  the shape is the same.
\<close>

theorem analyze_fully_shaped:
  "\<exists>a self' w'. analyze_startup_idea svc self w idea = (Inr a, self', w')
     \<and> (\<forall>n \<in> set section_names. \<exists>v. section_attr a n = Some v
            \<and> (is_analysis_value v \<or> is_error_marker v))
     \<and> length (recommendations a) = 1
     \<and> ((\<forall>i < 8. isl (reply svc (svc_state w) idea i)) \<longrightarrow>
          (\<forall>n \<in> set section_names. \<exists>v. section_attr a n = Some v \<and> is_error_marker v))"
proof -
  let ?a = "analysis_of svc w idea"
  have 1: "\<forall>n \<in> set section_names. \<exists>v. section_attr ?a n = Some v
            \<and> (is_analysis_value v \<or> is_error_marker v)"
    by (simp add: section_names_def section_attr_def analysis_of_def section_value_shape)
  have 2: "length (recommendations ?a) = 1"
    by (simp add: analysis_of_def coerce_recommendations_def section_value_def split: sum.splits)
  have 3: "\<forall>n \<in> set section_names. \<exists>v. section_attr ?a n = Some v \<and> is_error_marker v"
    if h: "\<forall>i < 8. isl (reply svc (svc_state w) idea i)"
  proof -
    have "is_error_marker (section_value (reply svc (svc_state w) idea i))" if "i < 8" for i
      using h that by (simp add: section_value_isl)
    from this [of 0] this [of 1] this [of 2] this [of 3] this [of 4] this [of 5] this [of 6]
    show ?thesis
      by (simp add: section_names_def section_attr_def analysis_of_def)
  qed
  show ?thesis
    using 1 2 3 by (simp add: analyze_startup_idea_eq)
qed

theorem analyze_fully_shaped_witness:
  "\<not> isl (fst (analyze_startup_idea (failing_service ''boom'') init_agent (world0 () new_year) ''tea''))
   \<and> is_error_marker (market_research (projr (fst (analyze_startup_idea (failing_service ''boom'')
        init_agent (world0 () new_year) ''tea''))))
   \<and> length (recommendations (projr (fst (analyze_startup_idea (failing_service ''boom'') init_agent
        (world0 () new_year) ''tea'')))) = 1"
  using analyze_fully_shaped [of "failing_service ''boom''" init_agent "world0 () new_year" "''tea''"]
  by (auto simp: reply_failing section_names_def section_attr_def)

subsection \<open>The recommendations\<close>

text \<open>
  C4 (as the code has it). A value that is not a list is coerced to the one-element
  sequence of its \<^verbatim>\<open>str\<close> form. What \<^verbatim>\<open>analyze_startup_idea\<close> coerces is not the
  completion text but the mapping \<^verbatim>\<open>_analyze_with_gemini\<close> made of it: when the
  service answers the recommendations call with \<open>text\<close>, the recommendations are the
  one string \<^verbatim>\<open>{'analysis': <repr of text>, 'source': 'Gemini'}\<close>.
\<close>

theorem recommendations_coerced:
  "((\<forall>xs. r \<noteq> PList xs) \<longrightarrow> coerce_recommendations r = [PStr (py_str r)])
   \<and> (\<exists>a. fst (analyze_startup_idea svc self w idea) = Inr a
     \<and> (\<forall>text. reply svc (svc_state w) idea 7 = Inr text \<longrightarrow>
          recommendations a = [PStr (py_str (PDict [(''analysis'', PStr text), (''source'', PStr ''Gemini'')]))]
          \<and> recommendations a = [PStr (''{'' @ repr_str ''analysis'' @ '': '' @ repr_str text @ '', ''
               @ repr_str ''source'' @ '': '' @ repr_str ''Gemini'' @ ''}'')]))"
  by (auto simp: analyze_startup_idea_eq analysis_of_def section_value_def
      coerce_recommendations_def split: pyval.splits)

theorem recommendations_coerced_witness:
  "recommendations (projr (fst (analyze_startup_idea (stub_service []) init_agent (world0 0 new_year)
        ''A subscription box for artisanal coffee'')))
     = [PStr (CHR ''{'' # squote # ''analysis'' @ squote # '': '' @ squote
         # ''STUB:recommendations analysis text'' @ squote # '', ''
         @ squote # ''source'' @ squote # '': '' @ squote # ''Gemini'' @ [squote, CHR ''}''])]"
  using recommendations_coerced [of "PNone" "stub_service []" init_agent "world0 0 new_year"
      "''A subscription box for artisanal coffee''"]
  by (auto simp: reply_stub world0_def tasks_def repr_str_def repr_quote_def repr_char_def)

text \<open>The scenario of the claim: the stub answers the recommendations call with
  \<^verbatim>\<open>STUB:recommendations analysis text\<close>, and the record does not hold that text.\<close>

theorem recommendations_raw_text_counterexample:
  "\<not> isl (fst (analyze_startup_idea (stub_service []) init_agent (world0 0 new_year)
        ''A subscription box for artisanal coffee''))
   \<and> reply (stub_service []) 0 ''A subscription box for artisanal coffee'' 7
        = Inr ''STUB:recommendations analysis text''
   \<and> recommendations (projr (fst (analyze_startup_idea (stub_service []) init_agent (world0 0 new_year)
        ''A subscription box for artisanal coffee'')))
     \<noteq> [PStr ''STUB:recommendations analysis text'']"
  by (simp add: analyze_startup_idea_eq analysis_of_def reply_stub world0_def tasks_def
      section_value_def coerce_recommendations_def repr_str_def repr_quote_def repr_char_def)

subsection \<open>Pitch deck and validation\<close>

text \<open>
  C8. When the service raises with message \<open>e\<close> at the call of
  \<^verbatim>\<open>generate_pitch_deck\<close> or of \<^verbatim>\<open>validate_business_model\<close>, the operation returns
  \<^verbatim>\<open>{"error": e}\<close>; the agent, and with it the history, is the one it started with; and
  the service has been called once, with no second attempt.
\<close>

theorem derived_calls_fail_softly:
  "(fst (svc (svc_state w) (pitch_prompt a)) = Inl e \<longrightarrow>
      generate_pitch_deck svc self w a
        = (PDict [(''error'', PStr e)], self, w\<lparr>svc_state := snd (svc (svc_state w) (pitch_prompt a))\<rparr>))
   \<and> (fst (svc (svc_state w) (validation_prompt bm)) = Inl e \<longrightarrow>
      validate_business_model svc self w bm
        = (PDict [(''error'', PStr e)], self,
           w\<lparr>svc_state := snd (svc (svc_state w) (validation_prompt bm))\<rparr>))"
  by (simp add: generate_pitch_deck_def validate_business_model_def generate_content_def
      split: prod.splits sum.splits)

text \<open>\<^verbatim>\<open>validate_business_model({})\<close> on a fresh agent, the stub raising at its first
  call: the stub has counted one call and the history is still empty.\<close>

theorem derived_calls_fail_softly_witness:
  "validate_business_model (stub_service [0]) init_agent (world0 0 new_year) (PDict [])
     = (PDict [(''error'', PStr ''stub failure'')], init_agent, world0 1 new_year)
   \<and> generate_pitch_deck (stub_service [0]) init_agent (world0 0 new_year) (sample_analysis [])
     = (PDict [(''error'', PStr ''stub failure'')], init_agent, world0 1 new_year)
   \<and> analysis_history init_agent = []"
  using derived_calls_fail_softly [of "stub_service [0]" "world0 0 new_year" "sample_analysis []"
      "''stub failure''" init_agent "PDict []"]
  by (simp add: stub_service_def world0_def init_agent_def)

lemma analysed_Cons: "analysed (out # outs) = analysed [out] @ analysed outs"
  by (cases "(out # outs)" rule: analysed.cases) simp_all

lemma perform_history:
  "analysis_history (fst (snd (perform svc r self w)))
     = analysis_history self @ analysed [fst (perform svc r self w)]"
  by (cases r)
    (simp_all add: analyze_startup_idea_eq generate_pitch_deck_def validate_business_model_def
      delete_analysis_def split: prod.splits sum.splits)

lemma perform_all_history:
  "analysis_history (fst (snd (perform_all svc reqs self w)))
     = analysis_history self @ analysed (fst (perform_all svc reqs self w))"
proof (induction reqs arbitrary: self w)
  case Nil
  show ?case by simp
next
  case (Cons r rs)
  obtain out self1 w1 where p: "perform svc r self w = (out, self1, w1)"
    by (cases "perform svc r self w") auto
  obtain outs self2 w2 where q: "perform_all svc rs self1 w1 = (outs, self2, w2)"
    by (cases "perform_all svc rs self1 w1") auto
  have "analysis_history self1 = analysis_history self @ analysed [out]"
    using perform_history [of svc r self w] by (simp add: p)
  moreover have "analysis_history self2 = analysis_history self1 @ analysed outs"
    using Cons.IH [of self1 w1] by (simp add: q)
  ultimately show ?case
    by (simp add: p q analysed_Cons [of out outs])
qed

subsection \<open>The history\<close>

text \<open>
  C3. The history of a new agent is empty. Each call of \<^verbatim>\<open>analyze_startup_idea\<close>
  returns a record and appends exactly that record, so the length grows by one.
  Over any sequence of requests the history only grows at its end, by the records the
  analyze calls returned, in call order; on a new agent it is exactly the list of those
  records, so entry \<open>i\<close> is the record of the \<open>i\<close>-th call. The delete route raises
  the HTTP error 501 (not implemented) and leaves the agent as it was.
\<close>

theorem history_append_only:
  "get_analysis_history init_agent = []
   \<and> (\<exists>a w'. analyze_startup_idea svc self w idea
          = (Inr a, self\<lparr>analysis_history := get_analysis_history self @ [a]\<rparr>, w'))
   \<and> get_analysis_history (fst (snd (perform_all svc reqs self w)))
       = get_analysis_history self @ analysed (fst (perform_all svc reqs self w))
   \<and> get_analysis_history (fst (snd (perform_all svc reqs init_agent w)))
       = analysed (fst (perform_all svc reqs init_agent w))
   \<and> perform svc (DeleteAnalysis i) self w
       = (Deleted (Inl (HTTPException 501 ''Delete functionality not implemented yet'')), self, w)"
  by (simp add: get_analysis_history_def perform_all_history analyze_startup_idea_eq
      delete_analysis_def init_agent_def)

text \<open>Two analyses with a deletion attempt between them.\<close>

theorem history_append_only_witness:
  "length (get_analysis_history (fst (snd (perform_all (stub_service [6])
       [Analyze ''tea'', DeleteAnalysis 0, Analyze ''coffee''] init_agent (world0 0 new_year))))) = 2
   \<and> get_analysis_history (fst (snd (perform_all (stub_service [6])
       [Analyze ''tea'', DeleteAnalysis 0, Analyze ''coffee''] init_agent (world0 0 new_year))))
     = analysed (fst (perform_all (stub_service [6])
       [Analyze ''tea'', DeleteAnalysis 0, Analyze ''coffee''] init_agent (world0 0 new_year)))"
  using history_append_only [of "stub_service [6]" init_agent "world0 0 new_year" "''tea''"
      "[Analyze ''tea'', DeleteAnalysis 0, Analyze ''coffee'']" 0]
  by (simp add: analyze_startup_idea_eq delete_analysis_def get_analysis_history_def
      init_agent_def)

subsection \<open>Timestamps\<close>

lemma perform_world:
  "clock (snd (snd (perform svc r self w))) = clock w
   \<and> ticks w \<le> ticks (snd (snd (perform svc r self w)))"
  by (cases r)
    (simp_all add: analyze_startup_idea_eq generate_pitch_deck_def validate_business_model_def
      delete_analysis_def generate_content_def datetime_now_def split: prod.splits sum.splits)

lemma perform_stamp:
  "analysed [fst (perform svc r self w)] = []
   \<or> (map created_at (analysed [fst (perform svc r self w)]) = [clock w (ticks w)]
      \<and> ticks (snd (snd (perform svc r self w))) = Suc (ticks w))"
  by (cases r)
    (simp_all add: analyze_startup_idea_eq analysis_of_def split: prod.splits)

lemma perform_all_stamps:
  "\<exists>idxs. map created_at (analysed (fst (perform_all svc reqs self w))) = map (clock w) idxs
     \<and> sorted idxs \<and> (\<forall>i \<in> set idxs. ticks w \<le> i)"
proof (induction reqs arbitrary: self w)
  case Nil
  show ?case by simp
next
  case (Cons r rs)
  obtain out self1 w1 where p: "perform svc r self w = (out, self1, w1)"
    by (cases "perform svc r self w") auto
  obtain outs self2 w2 where q: "perform_all svc rs self1 w1 = (outs, self2, w2)"
    by (cases "perform_all svc rs self1 w1") auto
  have w1: "clock w1 = clock w" "ticks w \<le> ticks w1"
    using perform_world [of svc r self w] by (simp_all add: p)
  obtain idxs where i: "map created_at (analysed outs) = map (clock w) idxs"
      "sorted idxs" "\<forall>i \<in> set idxs. ticks w1 \<le> i"
    using Cons.IH [of self1 w1] by (auto simp: q w1)
  have res: "analysed (fst (perform_all svc (r # rs) self w)) = analysed [out] @ analysed outs"
    by (simp add: p q analysed_Cons [of out outs])
  from perform_stamp [of svc r self w]
  consider "analysed [out] = []"
    | "map created_at (analysed [out]) = [clock w (ticks w)]" "ticks w1 = Suc (ticks w)"
    by (auto simp: p)
  then show ?case
  proof cases
    case 1
    have "\<forall>i \<in> set idxs. ticks w \<le> i"
      using i(3) w1(2) by auto
    with 1 i show ?thesis
      unfolding res by auto
  next
    case 2
    have "map created_at (analysed [out] @ analysed outs) = map (clock w) (ticks w # idxs)"
      using 2 i by simp
    moreover have "sorted (ticks w # idxs)"
      using i(2,3) 2(2) by auto
    moreover have "\<forall>i \<in> set (ticks w # idxs). ticks w \<le> i"
      using i(3) 2(2) by auto
    ultimately show ?thesis
      unfolding res by blast
  qed
qed

text \<open>
  C9 (as the code has it). \<open>created_at\<close> is the reading of \<^verbatim>\<open>datetime.now()\<close> taken
  when the record is built, and the program compares no two readings. So the
  timestamps of the history are in non-decreasing order whenever the successive
  readings of the clock are.
\<close>

theorem created_at_monotone:
  assumes "\<forall>i j. i \<le> j \<longrightarrow> dt_le (clock w i) (clock w j)"
  shows "sorted_wrt dt_le (map created_at
           (get_analysis_history (fst (snd (perform_all svc reqs init_agent w)))))"
proof -
  obtain idxs where i: "map created_at (analysed (fst (perform_all svc reqs init_agent w)))
      = map (clock w) idxs" "sorted idxs"
    using perform_all_stamps [of svc reqs init_agent w] by blast
  have "sorted_wrt (\<lambda>i j. dt_le (clock w i) (clock w j)) idxs"
    using i(2) assms by (simp add: sorted_wrt_mono_rel [of idxs "(\<le>)"])
  then have "sorted_wrt dt_le (map (clock w) idxs)"
    by (simp add: sorted_wrt_map)
  then show ?thesis
    by (simp add: get_analysis_history_def perform_all_history i(1)) (simp add: init_agent_def)
qed

lemma new_year_mono: "i \<le> j \<Longrightarrow> dt_le (new_year i) (new_year j)"
  by (simp add: dt_le_def dt_key_def new_year_def)

theorem created_at_monotone_witness:
  "sorted_wrt dt_le (map created_at (get_analysis_history (fst (snd
      (perform_all (stub_service [6]) [Analyze ''tea'', GetAnalysisHistory, Analyze ''coffee'']
         init_agent (world0 0 new_year))))))
   \<and> length (get_analysis_history (fst (snd
      (perform_all (stub_service [6]) [Analyze ''tea'', GetAnalysisHistory, Analyze ''coffee'']
         init_agent (world0 0 new_year))))) = 2"
  using created_at_monotone [of "world0 0 new_year" "stub_service [6]"
      "[Analyze ''tea'', GetAnalysisHistory, Analyze ''coffee'']"]
  by (simp add: new_year_mono world0_def analyze_startup_idea_eq get_analysis_history_def
      init_agent_def)

text \<open>With a wall clock that is set back between two analyses, the later record
  carries the earlier timestamp.\<close>

theorem created_at_counterexample:
  "map created_at (get_analysis_history (fst (snd
      (perform_all (failing_service ''boom'') [Analyze ''tea'', Analyze ''coffee'']
         init_agent (world0 () stepping_back)))))
     = [new_year 1, new_year 0]
   \<and> \<not> dt_le (new_year 1) (new_year 0)"
  by (simp add: world0_def analyze_startup_idea_eq get_analysis_history_def
      init_agent_def analysis_of_def stepping_back_def dt_le_def dt_key_def new_year_def)

subsection \<open>Export\<close>




lemma lower_capital: "c = d \<or> capital_of c d \<Longrightarrow> 97 \<le> (of_char d :: nat) \<Longrightarrow> of_char d \<le> (122 :: nat)
   \<Longrightarrow> lower_char c = d"
  by (auto simp: lower_char_def capital_of_def char_of_eq_iff take_bit_eq_mod)

lemma capitalization_lower:
  assumes "capitalization_of word s" "\<forall>d \<in> set word. 97 \<le> (of_char d :: nat) \<and> of_char d \<le> (122 :: nat)"
  shows "lower s = word"
  using assms unfolding capitalization_of_def lower_def
  by (induction s word rule: list_all2_induct) (simp_all add: lower_capital)

text \<open>
  C10. Every capitalization of \<^verbatim>\<open>json\<close> yields the JSON serialization and every
  capitalization of \<^verbatim>\<open>markdown\<close> the markdown document; a format is rejected, with
  the unsupported-format error, exactly when its lower-case form is neither of the two.
\<close>

theorem export_format_case_insensitive:
  "(capitalization_of ''json'' format \<longrightarrow>
      export_analysis a format = Inr (json_dumps (analysis_dict a)))
   \<and> (capitalization_of ''markdown'' format \<longrightarrow>
      export_analysis a format = Inr (convert_to_markdown a))
   \<and> (export_analysis a format = Inl (ValueError (''Unsupported format: '' @ format))
        \<longleftrightarrow> lower format \<noteq> ''json'' \<and> lower format \<noteq> ''markdown'')
   \<and> (lower format = ''json'' \<or> lower format = ''markdown'' \<longleftrightarrow> \<not> isl (export_analysis a format))"
proof -
  have j: "lower format = ''json''" if "capitalization_of ''json'' format"
    using capitalization_lower [OF that] by simp
  have m: "lower format = ''markdown''" if "capitalization_of ''markdown'' format"
    using capitalization_lower [OF that] by simp
  show ?thesis
    using j m by (auto simp: export_analysis_def)
qed

theorem export_format_case_insensitive_witness:
  "export_analysis (sample_analysis []) ''Json'' = Inr (json_dumps (analysis_dict (sample_analysis [])))
   \<and> export_analysis (sample_analysis []) ''MarkDown'' = Inr (convert_to_markdown (sample_analysis []))
   \<and> export_analysis (sample_analysis []) ''yaml'' = Inl (ValueError ''Unsupported format: yaml'')"
  using export_format_case_insensitive [of "''Json''" "sample_analysis []"]
    export_format_case_insensitive [of "''MarkDown''" "sample_analysis []"]
    export_format_case_insensitive [of "''yaml''" "sample_analysis []"]
  by (simp add: capitalization_of_def capital_of_def lower_def lower_char_def char_of_eq_iff)

subsection \<open>The markdown document\<close>

lemma split_lines_nonempty [simp]: "split_lines s \<noteq> []"
  by (induction s) (auto split: list.splits)

lemma split_lines_Cons: "\<exists>l ls. split_lines s = l # ls"
  using split_lines_nonempty [of s] by (simp only: neq_Nil_conv)

lemma hd_take2: "l \<noteq> [] \<Longrightarrow> hd l \<noteq> CHR ''-'' \<Longrightarrow> \<not> is_bullet_line l"
  by (cases l) (auto simp: is_bullet_line_def)

lemma split_lines_append_nl: "split_lines (a @ nl # b) = split_lines a @ split_lines b"
proof (induction a)
  case Nil
  show ?case by simp
next
  case (Cons c a)
  obtain l ls where "split_lines a = l # ls"
    by (cases "split_lines a") simp_all
  with Cons show ?case by simp
qed

lemma split_lines_nl_free: "nl \<notin> set s \<Longrightarrow> split_lines s = [s]"
  by (induction s) auto

lemma split_lines_line: "nl \<notin> set l \<Longrightarrow> split_lines (l @ nl # rest) = l # split_lines rest"
  by (simp add: split_lines_append_nl split_lines_nl_free)

lemma split_lines_join:
  "\<forall>x \<in> set xs. nl \<notin> set x \<Longrightarrow> split_lines (join [nl] xs) = (if xs = [] then [''''] else xs)"
  by (induction "[nl]" xs rule: join.induct) (simp_all add: split_lines_nl_free split_lines_line)

lemma nl_ok_append: "nl_ok a \<Longrightarrow> nl_ok b \<Longrightarrow> nl_ok (a @ b)"
proof (induction a rule: nl_ok.induct)
  case 1
  then show ?case by simp
next
  case (2 c)
  then show ?case by (cases b) simp_all
next
  case (3 c d r)
  then show ?case by simp
qed

lemma nl_free_ok: "nl \<notin> set s \<Longrightarrow> nl_ok s"
  by (induction s rule: nl_ok.induct) auto

lemma nl_ok_tail_lines:
  "nl_ok s \<Longrightarrow> \<forall>l \<in> set (tl (split_lines s)). l \<noteq> [] \<and> hd l \<in> {CHR '' '', CHR ''}'', CHR '']''}"
proof (induction s rule: nl_ok.induct)
  case 1
  show ?case by simp
next
  case (2 c)
  then show ?case by simp
next
  case (3 c d r)
  obtain l ls where dr: "split_lines (d # r) = l # ls"
    using split_lines_Cons by blast
  have ih: "\<forall>l \<in> set ls. l \<noteq> [] \<and> hd l \<in> {CHR '' '', CHR ''}'', CHR '']''}"
    using 3 dr by simp
  show ?case
  proof (cases "c = nl")
    case True
    then have d: "d = CHR '' '' \<or> d = CHR ''}'' \<or> d = CHR '']''"
      using 3(2) by simp
    then have "d \<noteq> nl" by auto
    then have "l \<noteq> [] \<and> hd l = d"
      using dr by (auto split: list.splits)
    with True d ih dr show ?thesis by auto
  next
    case False
    with ih dr show ?thesis by simp
  qed
qed

lemma first_line_prefix:
  assumes "is_bullet_line (hd (split_lines s))"
  shows "take 2 s = ''- ''"
proof (cases s)
  case Nil
  with assms show ?thesis by (simp add: is_bullet_line_def)
next
  case c: (Cons c cs)
  show ?thesis
  proof (cases cs)
    case Nil
    with c assms show ?thesis by (simp add: is_bullet_line_def split: if_splits)
  next
    case (Cons d ds)
    obtain l ls where "split_lines ds = l # ls"
      using split_lines_Cons by blast
    with c Cons assms show ?thesis
      by (simp add: is_bullet_line_def split: if_splits)
  qed
qed

lemma nl_ok_no_bullets:
  assumes "nl_ok s" "take 2 s \<noteq> ''- ''"
  shows "filter is_bullet_line (split_lines s) = []"
proof -
  obtain l ls where s: "split_lines s = l # ls"
    using split_lines_Cons by blast
  have "\<not> is_bullet_line l"
    using first_line_prefix [of s] assms(2) s by auto
  moreover have "\<not> is_bullet_line x" if "x \<in> set ls" for x
  proof -
    have "x \<noteq> [] \<and> hd x \<in> {CHR '' '', CHR ''}'', CHR '']''}"
      using nl_ok_tail_lines [OF assms(1)] s that by simp
    then show ?thesis
      by (intro hd_take2) auto
  qed
  ultimately show ?thesis
    by (simp add: s)
qed

lemma digit_char_neq: "d < 10 \<Longrightarrow> digit_char d \<noteq> nl \<and> digit_char d \<noteq> CHR '' ''"
  by (simp add: digit_char_def char_of_eq_iff take_bit_eq_mod)

lemma show_nat_chars: "c \<in> set (show_nat n) \<Longrightarrow> c \<noteq> nl \<and> c \<noteq> CHR '' ''"
proof (induction n rule: show_nat.induct)
  case (1 n)
  show ?case
  proof (cases "n < 10")
    case True
    with 1(2) show ?thesis
      by (simp add: show_nat.simps [of n] digit_char_neq)
  next
    case False
    with 1 show ?thesis
      by (auto simp: show_nat.simps [of n] digit_char_neq)
  qed
qed


lemma nl_show_nat: "nl \<notin> set (show_nat n)"
  using show_nat_chars by blast

lemma nl_show_int: "nl \<notin> set (show_int i)"
  by (simp add: show_int_def nl_show_nat)

lemma take2_show_int: "take 2 (show_int i) \<noteq> ''- ''"
proof
  assume a: "take 2 (show_int i) = ''- ''"
  have "CHR '' '' \<in> set (take 2 (show_int i))"
    by (simp add: a)
  then have "CHR '' '' \<in> set (show_int i)"
    by (rule in_set_takeD)
  then show False
    using show_nat_chars [of "CHR '' ''"] by (auto simp: show_int_def split: if_splits)
qed

lemma hex_char_neq: "d < 16 \<Longrightarrow> hex_char d \<noteq> nl"
  by (simp add: hex_char_def char_of_eq_iff take_bit_eq_mod)

lemma nl_json_escape_char: "nl \<notin> set (json_escape_char c)"
proof -
  have "(of_char c :: nat) < 16 * 16"
    using nat_of_char_less_256 [of c] by simp
  then have "(of_char c :: nat) div 16 < 16"
    by (rule less_mult_imp_div_less)
  moreover have "(of_char c :: nat) mod 16 < 16"
    by simp
  ultimately show ?thesis
    using hex_char_neq [of "of_char c div 16"] hex_char_neq [of "of_char c mod 16"]
    by (auto simp: json_escape_char_def)
qed

lemma nl_json_string: "nl \<notin> set (json_string s)"
  by (simp add: json_string_def nl_json_escape_char)

lemma nl_zero_pad: "nl \<notin> set (zero_pad w n)"
  by (simp add: zero_pad_def nl_show_nat)

lemma nl_dt_str: "nl \<notin> set (dt_str d)"
  by (simp add: dt_str_def dt_isoformat_sep_def nl_zero_pad)

lemma nl_ok_Cons: "c \<noteq> nl \<Longrightarrow> nl_ok x \<Longrightarrow> nl_ok (c # x)"
  by (cases x) simp_all

lemma nl_ok_indent: "nl_ok x \<Longrightarrow> nl_ok (nl # indent_str (Suc level) @ x)"
proof -
  assume x: "nl_ok x"
  have "nl_ok (replicate n CHR '' '' @ x)" for n
    by (intro nl_ok_append nl_free_ok x) simp
  from this [of "Suc (2 * level)"] show ?thesis
    by (simp add: indent_str_def)
qed

lemma nl_ok_close:
  "c = CHR ''}'' \<or> c = CHR '']'' \<Longrightarrow> nl_ok (nl # indent_str level @ [c])"
proof (cases level)
  case 0
  assume "c = CHR ''}'' \<or> c = CHR '']''"
  with 0 show ?thesis by (auto simp: indent_str_def)
next
  case (Suc l)
  assume "c = CHR ''}'' \<or> c = CHR '']''"
  then have "nl_ok [c]" by auto
  from nl_ok_indent [OF this, of l] Suc show ?thesis by simp
qed

lemma nl_ok_dumps:
  "nl_ok (dumps_at level v)"
  "0 < level \<Longrightarrow> nl_ok (dumps_items level first vs)"
  "0 < level \<Longrightarrow> nl_ok (dumps_pairs level first kvs)"
proof (induction level v and level first vs and level first kvs
    rule: dumps_at_dumps_items_dumps_pairs.induct)
  case (6 level v vs)
  have "nl_ok (dumps_items (Suc level) True (v # vs) @ nl # indent_str level @ '']'')"
    by (intro nl_ok_append 6 nl_ok_close) simp_all
  then show ?case by (simp add: nl_ok_Cons)
next
  case (8 level kv kvs)
  have "nl_ok (dumps_pairs (Suc level) True (kv # kvs) @ nl # indent_str level @ ''}'')"
    by (intro nl_ok_append 8 nl_ok_close) simp_all
  then show ?case by (simp add: nl_ok_Cons)
next
  case (10 level first v vs)
  then obtain l where l: "level = Suc l" by (cases level) simp_all
  have sep: "nl_ok (if first then [] else '','')"
    by (simp add: nl_free_ok)
  have "nl_ok (dumps_at level v @ dumps_items level False vs)"
    using 10 by (intro nl_ok_append) simp_all
  then have "nl_ok (nl # indent_str (Suc l) @ dumps_at level v @ dumps_items level False vs)"
    by (rule nl_ok_indent)
  from nl_ok_append [OF sep this] show ?case by (simp add: l)
next
  case (12 level first k v kvs)
  then obtain l where l: "level = Suc l" by (cases level) simp_all
  have sep: "nl_ok (if first then [] else '','')"
    by (simp add: nl_free_ok)
  have key: "nl_ok (json_string k @ '': '')"
    by (rule nl_free_ok) (simp add: nl_json_string)
  have "nl_ok (dumps_at level v @ dumps_pairs level False kvs)"
    using 12 by (intro nl_ok_append) simp_all
  from nl_ok_append [OF key this]
  have "nl_ok (nl # indent_str (Suc l) @ (json_string k @ '': '') @ dumps_at level v
      @ dumps_pairs level False kvs)"
    by (rule nl_ok_indent)
  from nl_ok_append [OF sep this] show ?case by (simp add: l)
qed (simp_all add: nl_free_ok nl_show_int nl_json_string)

lemma take2_dumps: "take 2 (dumps_at level v) \<noteq> ''- ''"
  by (cases "(level, v)" rule: dumps_at.cases) (simp_all add: take2_show_int json_string_def)

lemma json_dumps_no_bullets: "filter is_bullet_line (split_lines (json_dumps v)) = []"
  unfolding json_dumps_def by (intro nl_ok_no_bullets nl_ok_dumps take2_dumps)

lemma split_md_section:
  assumes "nl \<notin> set title"
  shows "split_lines (md_section title v @ rest) = md_section_lines title v @ split_lines rest"
proof -
  have e: "md_section title v @ rest
      = (''## '' @ title) @ nl # (json_dumps v @ nl # ([] @ nl # rest))"
    by (simp add: md_section_def)
  show ?thesis
    unfolding e md_section_lines_def using assms
    by (simp only: split_lines_append_nl) (simp add: split_lines_nl_free)
qed

lemma md: "convert_to_markdown a = ''# Startup Analysis Report'' @ nl
      # ((''Generated on: '' @ dt_str (created_at a)) @ nl # ([] @ nl # (md_section ''Market Research'' (market_research a)
     @ md_section ''Customer Analysis'' (customer_analysis a)
     @ md_section ''Business Model'' (business_model a)
     @ md_section ''Technical Feasibility'' (technical_feasibility a)
     @ md_section ''Financial Projections'' (financial_projections a)
     @ md_section ''Go-to-Market Strategy'' (go_to_market a)
     @ md_section ''Risk Assessment'' (risk_assessment a)
     @ ''## Recommendations'' @ nl # (join [nl] (map bullet (recommendations a)) @ nl # []))))"
    by (simp add: convert_to_markdown_def)

lemma lines_convert_to_markdown:
  "split_lines (convert_to_markdown a) =
     [''# Startup Analysis Report'', ''Generated on: '' @ dt_str (created_at a), []]
     @ md_section_lines ''Market Research'' (market_research a)
     @ md_section_lines ''Customer Analysis'' (customer_analysis a)
     @ md_section_lines ''Business Model'' (business_model a)
     @ md_section_lines ''Technical Feasibility'' (technical_feasibility a)
     @ md_section_lines ''Financial Projections'' (financial_projections a)
     @ md_section_lines ''Go-to-Market Strategy'' (go_to_market a)
     @ md_section_lines ''Risk Assessment'' (risk_assessment a)
     @ [''## Recommendations'']
     @ split_lines (join [nl] (map bullet (recommendations a)))
     @ ['''']"
  unfolding md
  apply (simp only: split_lines_append_nl)
  apply (simp add: split_lines_nl_free nl_dt_str split_md_section split_lines_append_nl)
  done


lemma bullets_md_section: "filter is_bullet_line (md_section_lines title v) = []"
  by (simp add: md_section_lines_def json_dumps_no_bullets is_bullet_line_def)

lemma bullet_lines_md:
  "bullet_lines (convert_to_markdown a)
     = filter is_bullet_line (split_lines (join [nl] (map bullet (recommendations a))))"
  by (simp add: bullet_lines_def lines_convert_to_markdown bullets_md_section)
    (simp add: is_bullet_line_def)

lemma heading_md_section: "(''## '' @ title) \<in> set (md_section_lines title v)"
  by (simp add: md_section_lines_def)

text \<open>
  C7 (as the code has it). The markdown export contains the heading line of each of
  the seven sections. Its bullet lines, the lines that start with \<^verbatim>\<open>"- "\<close>, are
  exactly the recommendations in order, one line each, provided no recommendation
  contains a line break: the entries are joined by newlines and not escaped.
\<close>

theorem markdown_headings_and_bullets:
  "set section_headings \<subseteq> set (split_lines (convert_to_markdown a))
   \<and> ((\<forall>r \<in> set (recommendations a). nl \<notin> set (py_str r)) \<longrightarrow>
        bullet_lines (convert_to_markdown a) = map bullet (recommendations a)
        \<and> length (bullet_lines (convert_to_markdown a)) = length (recommendations a))"
proof -
  have h: "set section_headings \<subseteq> set (split_lines (convert_to_markdown a))"
    using heading_md_section [of "''Market Research''"] heading_md_section [of "''Customer Analysis''"]
      heading_md_section [of "''Business Model''"] heading_md_section [of "''Technical Feasibility''"]
      heading_md_section [of "''Financial Projections''"]
      heading_md_section [of "''Go-to-Market Strategy''"] heading_md_section [of "''Risk Assessment''"]
    by (simp add: section_headings_def lines_convert_to_markdown)
  have b: "bullet_lines (convert_to_markdown a) = map bullet (recommendations a)"
    if "\<forall>r \<in> set (recommendations a). nl \<notin> set (py_str r)"
  proof -
    have "\<forall>x \<in> set (map bullet (recommendations a)). nl \<notin> set x"
      using that by (simp add: bullet_def)
    then have "split_lines (join [nl] (map bullet (recommendations a)))
        = (if recommendations a = [] then [''''] else map bullet (recommendations a))"
      by (simp add: split_lines_join)
    moreover have "filter is_bullet_line (map bullet rs) = map bullet rs" for rs
      by (induction rs) (simp_all add: is_bullet_line_def bullet_def)
    ultimately show ?thesis
      by (simp add: bullet_lines_md) (simp add: is_bullet_line_def)
  qed
  from h b show ?thesis by simp
qed

theorem markdown_headings_and_bullets_witness:
  "bullet_lines (convert_to_markdown (sample_analysis [PStr ''Talk to users'', PStr ''Ship'']))
     = [''- Talk to users'', ''- Ship'']
   \<and> ''## Risk Assessment''
     \<in> set (split_lines (convert_to_markdown (sample_analysis [PStr ''Talk to users'', PStr ''Ship''])))"
  using markdown_headings_and_bullets [of "sample_analysis [PStr ''Talk to users'', PStr ''Ship'']"]
  by (auto simp: sample_analysis_def bullet_def section_headings_def)

text \<open>One recommendation of two lines, the second starting with a dash, gives two
  bullet lines.\<close>

theorem markdown_bullets_counterexample:
  "bullet_lines (convert_to_markdown (sample_analysis [PStr (''a'' @ [nl] @ ''- b'')]))
     = [''- a'', ''- b'']
   \<and> length (recommendations (sample_analysis [PStr (''a'' @ [nl] @ ''- b'')])) = 1"
  by (simp add: bullet_lines_md sample_analysis_def bullet_def is_bullet_line_def)

subsection \<open>The JSON round trip\<close>


lemma cons_result_Some [simp]: "cons_result c (Some (s, r)) = Some (c # s, r)"
  by (simp add: cons_result_def)

































lemma delimited_simps [simp]:
  "delimited (nl # s)" "delimited (CHR '','' # s)" "delimited []"
  by (simp_all add: delimited_def)













end
